theory Spec2Isabelle
  imports Complex_Main "HOL-Library.Word" "HOL-Library.Sublist"
begin

section \<open>Frontend: the product catalogue page\<close>

text \<open>
  The TypeScript interface \<open>Product\<close> of \<open>frontend/src/api/products.ts\<close>. The
  components read the fields \<open>id\<close>, \<open>name\<close>, \<open>description\<close>, \<open>price\<close>,
  \<open>imageUrl\<close> and \<open>category\<close>. The field declarations of the Django model
  \<open>Product\<close> are elided in the sources; its row is taken to be the same record,
  as the frontend reads the serializer's output (\<open>fields = '__all__'\<close>) under
  these names. The backend views below use \<open>id\<close> and \<open>name\<close> only.
\<close>

record product =
  p_id :: int
  p_name :: string
  p_description :: string
  p_price :: real
  p_imageUrl :: string
  p_category :: string

text \<open>
  A rendered React tree. \<open>Null\<close> is the \<open>null\<close> a component returns to render
  nothing; \<open>ProductCardE p\<close> is the element \<open><ProductCard product={p} />\<close>, kept
  as a leaf (its own markup formats the price with \<open>toFixed\<close>); \<open>Tag\<close> is a host
  element with its children. Class names and keys are styling and reconciliation
  hints and are left out.
\<close>

datatype element =
    Null
  | Text string
  | ProductCardE product
  | Tag string "element list"

text \<open>\<open>const CATEGORIES = ["bavoirs", "doudous", "couvertures"]\<close>\<close>

definition CATEGORIES :: "string list" where
  "CATEGORIES = [''bavoirs'', ''doudous'', ''couvertures'']"

text \<open>
  \<open>CategorySection({category, products})\<close>: \<open>null\<close> for an empty list, otherwise a
  \<open>div\<close> holding the \<open>h2\<close> heading and the grid of cards.
\<close>

definition CategorySection :: "string \<Rightarrow> product list \<Rightarrow> element" where
  "CategorySection category products =
     (if length products = 0 then Null
      else Tag ''div''
             [Tag ''h2'' [Text category],
              Tag ''div'' (map (\<lambda>product. ProductCardE product) products)])"

text \<open>
  \<open>Products()\<close>, with the list that \<open>useProducts()\<close> provides as its argument: one
  \<open>CategorySection\<close> per entry of \<open>CATEGORIES\<close>, each given the products whose
  category is strictly equal to it.
\<close>

definition Products :: "product list \<Rightarrow> element" where
  "Products products =
     Tag ''div''
       (map (\<lambda>category.
               CategorySection category
                 (filter (\<lambda>product. p_category product = category) products))
            CATEGORIES)"

text \<open>Observers of a rendered tree: its children, its heading, the cards inside it.\<close>

fun children :: "element \<Rightarrow> element list" where
  "children (Tag t cs) = cs"
| "children e = []"

fun heading :: "element \<Rightarrow> string option" where
  "heading (Tag t (Tag h [Text c] # rest)) = (if h = ''h2'' then Some c else None)"
| "heading e = None"

fun cards :: "element \<Rightarrow> product list" where
  "cards Null = []"
| "cards (Text s) = []"
| "cards (ProductCardE p) = [p]"
| "cards (Tag t cs) = concat (map cards cs)"


section \<open>Frontend: the star rating of a review\<close>

text \<open>
  A JavaScript string is a sequence of UTF-16 code units, and \<open>length\<close> counts
  them. The filled star U+2605 and the empty star U+2606 are one code unit each.
\<close>

type_synonym js_string = "16 word list"

definition FILLED_STAR :: js_string where
  "FILLED_STAR = [0x2605]"

definition EMPTY_STAR :: js_string where
  "EMPTY_STAR = [0x2606]"

datatype js_error = RangeError

text \<open>
  \<open>String.prototype.repeat(count)\<close> for an integral count: a negative count throws
  a \<open>RangeError\<close>, otherwise the result is \<open>count\<close> copies of the string. The
  argument \<open>count\<close> is written \<open>n\<close>.
\<close>

definition js_repeat :: "js_string \<Rightarrow> int \<Rightarrow> js_error + js_string" where
  "js_repeat s n =
     (if n < 0 then Inl RangeError else Inr (concat (replicate (nat n) s)))"

text \<open>
  The TypeScript interface \<open>Review\<close> of \<open>frontend/src/api/reviews.ts\<close>, with the
  rating an integer.
\<close>

record review_item =
  ri_id :: int
  ri_product :: int
  ri_author :: string
  ri_rating :: int
  ri_comment :: string
  ri_created_at :: string

text \<open>
  The card that \<open>ReviewsSection\<close> renders for one review: the author, the star
  string and the comment. The star string is the two adjacent text children
  of one \<open>span\<close>: the filled star repeated \<open>review.rating\<close> times, then the
  empty star repeated \<open>5 - review.rating\<close> times. The first call is evaluated
  first, so its exception wins.
\<close>

record review_card =
  rc_author :: string
  rc_stars :: js_string
  rc_comment :: string

definition render_stars :: "int \<Rightarrow> js_error + js_string" where
  "render_stars rating =
     (case js_repeat FILLED_STAR rating of
        Inl e \<Rightarrow> Inl e
      | Inr filled \<Rightarrow>
          (case js_repeat EMPTY_STAR (5 - rating) of
             Inl e \<Rightarrow> Inl e
           | Inr hollow \<Rightarrow> Inr (filled @ hollow)))"

definition render_review :: "review_item \<Rightarrow> js_error + review_card" where
  "render_review review =
     (case render_stars (ri_rating review) of
        Inl e \<Rightarrow> Inl e
      | Inr stars \<Rightarrow>
          Inr \<lparr>rc_author = ri_author review, rc_stars = stars,
               rc_comment = ri_comment review\<rparr>)"

text \<open>\<open>reviews.map(...)\<close>: the first exception aborts the whole rendering.\<close>

fun render_reviews :: "review_item list \<Rightarrow> js_error + review_card list" where
  "render_reviews [] = Inr []"
| "render_reviews (review # rest) =
     (case render_review review of
        Inl e \<Rightarrow> Inl e
      | Inr c \<Rightarrow>
          (case render_reviews rest of
             Inl e \<Rightarrow> Inl e
           | Inr cs \<Rightarrow> Inr (c # cs)))"

text \<open>
  \<open>ReviewsSection\<close> on the fetched list: \<open>null\<close> (here \<open>None\<close>) when the list is
  empty, otherwise the grid of cards.
\<close>

definition ReviewsSection :: "review_item list \<Rightarrow> js_error + review_card list option" where
  "ReviewsSection reviews =
     (if length reviews = 0 then Inr None
      else (case render_reviews reviews of
              Inl e \<Rightarrow> Inl e
            | Inr cs \<Rightarrow> Inr (Some cs)))"

text \<open>
  The card that the rating of a review calls for: \<open>rating\<close> filled stars, then
  \<open>5 - rating\<close> empty ones. The rendering is compared with it below.
\<close>

definition star_card :: "review_item \<Rightarrow> review_card" where
  "star_card review =
     \<lparr>rc_author = ri_author review,
      rc_stars = replicate (nat (ri_rating review)) 0x2605 @
                 replicate (nat (5 - ri_rating review)) 0x2606,
      rc_comment = ri_comment review\<rparr>"


section \<open>Backend: the Django models and the database\<close>

text \<open>
  \<open>class ProductView(models.Model)\<close>: the foreign key \<open>product\<close> (stored as the
  id of the product it references) and \<open>viewed_at\<close>, set on creation
  (\<open>auto_now_add=True\<close>). Every model has the automatic primary key \<open>id\<close>.
  Times are seconds on the server's clock.
\<close>

record product_view =
  pv_id :: int
  pv_product :: int
  pv_viewed_at :: nat

text \<open>
  \<open>class Review(models.Model)\<close>: \<open>product\<close> (foreign key), \<open>author\<close>
  (\<open>CharField(max_length=100)\<close>), \<open>rating\<close> (\<open>IntegerField\<close> with two
  validators), \<open>comment\<close> (\<open>TextField\<close>) and \<open>created_at\<close>
  (\<open>auto_now_add=True\<close>).
\<close>

record review =
  rv_id :: int
  rv_product :: int
  rv_author :: string
  rv_rating :: int
  rv_comment :: string
  rv_created_at :: nat

text \<open>
  The database: one table per model, rows in insertion order, and for each table
  the next value of its auto-increment primary key.
\<close>

record database =
  Product_objects :: "product list"
  ProductView_objects :: "product_view list"
  Review_objects :: "review list"
  Product_seq :: int
  ProductView_seq :: int
  Review_seq :: int

text \<open>
  The primary key of the products: the ids are pairwise distinct and below the
  next value of the sequence. It holds in the empty database and is kept by
  every request, as is shown at the end.
\<close>

definition Product_pk :: "database \<Rightarrow> bool" where
  "Product_pk db =
     (distinct (map p_id (Product_objects db)) \<and>
      list_all (\<lambda>p. p_id p < Product_seq db) (Product_objects db))"

definition empty_database :: database where
  "empty_database =
     \<lparr>Product_objects = [], ProductView_objects = [], Review_objects = [],
      Product_seq = 1, ProductView_seq = 1, Review_seq = 1\<rparr>"

text \<open>The data of a response: the Python value that is encoded as JSON.\<close>

datatype json =
    JNull
  | JInt int
  | JNum real
  | JStr string
  | JTime nat
  | JArray "json list"
  | JObject "(string \<times> json) list"

text \<open>\<open>Response(data, status=...)\<close>; the status defaults to 200.\<close>

datatype response = Response (data: json) (status: nat)

datatype exn = DoesNotExist | MultipleObjectsReturned

text \<open>
  \<open>Product.objects.get(id=product_id)\<close>: the one matching row; \<open>DoesNotExist\<close>
  when there is none, \<open>MultipleObjectsReturned\<close> when there are several.
\<close>

definition Product_objects_get :: "database \<Rightarrow> int \<Rightarrow> exn + product" where
  "Product_objects_get db i =
     (case filter (\<lambda>p. p_id p = i) (Product_objects db) of
        [] \<Rightarrow> Inl DoesNotExist
      | [p] \<Rightarrow> Inr p
      | p # q # rest \<Rightarrow> Inl MultipleObjectsReturned)"

text \<open>\<open>ProductView.objects.create(product=product)\<close> at the time \<open>now\<close>.\<close>

definition ProductView_objects_create :: "database \<Rightarrow> nat \<Rightarrow> product \<Rightarrow> database" where
  "ProductView_objects_create db now product =
     db\<lparr>ProductView_objects :=
          ProductView_objects db @
            [\<lparr>pv_id = ProductView_seq db, pv_product = p_id product, pv_viewed_at = now\<rparr>],
        ProductView_seq := ProductView_seq db + 1\<rparr>"


section \<open>Backend: the analytics endpoints\<close>

text \<open>
  \<open>record_view(request, product_id)\<close>. The \<open>except\<close> clause catches
  \<open>Product.DoesNotExist\<close> only; any other exception leaves the view.
\<close>

definition record_view :: "nat \<Rightarrow> database \<Rightarrow> int \<Rightarrow> exn + response \<times> database" where
  "record_view now db product_id =
     (case Product_objects_get db product_id of
        Inr product \<Rightarrow>
          Inr (Response (JObject [(''status'', JStr ''recorded'')]) 200,
               ProductView_objects_create db now product)
      | Inl DoesNotExist \<Rightarrow>
          Inr (Response (JObject [(''error'', JStr ''Product not found'')]) 404, db)
      | Inl MultipleObjectsReturned \<Rightarrow> Inl MultipleObjectsReturned)"

text \<open>
  \<open>Product.objects.annotate(view_count=Count('views'))\<close> is one grouped query:
  the products are joined to their views by a left outer join on
  \<open>productview.product_id = product.id\<close> (a product without views keeps one row,
  with the view's columns \<open>NULL\<close>), the joined rows are grouped by product, and
  \<open>COUNT\<close> counts, in each group, the rows whose view id is not \<open>NULL\<close>.
\<close>

definition joined_rows ::
  "product_view list \<Rightarrow> product \<Rightarrow> (product \<times> product_view option) list" where
  "joined_rows vs p =
     (case filter (\<lambda>v. pv_product v = p_id p) vs of
        [] \<Rightarrow> [(p, None)]
      | v # ms \<Rightarrow> map (\<lambda>v. (p, Some v)) (v # ms))"

definition left_outer_join ::
  "product list \<Rightarrow> product_view list \<Rightarrow> (product \<times> product_view option) list" where
  "left_outer_join ps vs = concat (map (joined_rows vs) ps)"

definition group_by_count :: "('a \<times> 'b option) list \<Rightarrow> ('a \<times> nat) list" where
  "group_by_count rows =
     map (\<lambda>k. (k, length (filter (\<lambda>row. fst row = k \<and> snd row \<noteq> None) rows)))
       (remdups (map fst rows))"

definition annotate_view_count :: "database \<Rightarrow> (product \<times> nat) list" where
  "annotate_view_count db =
     group_by_count (left_outer_join (Product_objects db) (ProductView_objects db))"

text \<open>\<open>.values('id', 'name', 'view_count')\<close>: each row as a dictionary.\<close>

definition values_id_name_view_count :: "product \<times> nat \<Rightarrow> json" where
  "values_id_name_view_count row =
     JObject [(''id'', JInt (p_id (fst row))),
              (''name'', JStr (p_name (fst row))),
              (''view_count'', JInt (int (snd row)))]"

text \<open>\<open>get_analytics(request)\<close>\<close>

definition get_analytics :: "database \<Rightarrow> response" where
  "get_analytics db =
     Response (JArray (map values_id_name_view_count (annotate_view_count db))) 200"

text \<open>
  Reading a response as a client does: the items of a list, the field names of
  an object, one field of an object, and the \<open>view_count\<close> that an analytics
  response reports for a product id.
\<close>

fun items :: "response \<Rightarrow> json list" where
  "items (Response (JArray xs) st) = xs"
| "items r = []"

fun keys :: "json \<Rightarrow> string list" where
  "keys (JObject kvs) = map fst kvs"
| "keys j = []"

fun field :: "string \<Rightarrow> json \<Rightarrow> json option" where
  "field k (JObject kvs) = map_of kvs k"
| "field k j = None"

definition view_count_of :: "response \<Rightarrow> int \<Rightarrow> json option" where
  "view_count_of resp i =
     (case find (\<lambda>row. field ''id'' row = Some (JInt i)) (items resp) of
        None \<Rightarrow> None
      | Some row \<Rightarrow> field ''view_count'' row)"

text \<open>
  The record that the analytics are to hold for a product: its id, its name and
  the number of \<open>ProductView\<close> rows that reference it. The response of
  \<open>get_analytics\<close> is compared with it below.
\<close>

definition analytics_row :: "database \<Rightarrow> product \<Rightarrow> json" where
  "analytics_row db p =
     JObject [(''id'', JInt (p_id p)),
              (''name'', JStr (p_name p)),
              (''view_count'',
               JInt (int (length (filter (\<lambda>v. pv_product v = p_id p) (ProductView_objects db)))))]"


section \<open>Backend: the reviews resource\<close>

text \<open>
  The fields a client may set on a review: \<open>id\<close> and \<open>created_at\<close> are
  read-only. The payload is the request body (or the admin form) after the
  framework has parsed each field to its type; a body that does not parse is
  rejected before anything below runs, and stores nothing.
\<close>

record review_payload =
  rp_product :: int
  rp_author :: string
  rp_rating :: int
  rp_comment :: string

text \<open>
  Django's \<open>MinValueValidator(limit)\<close> rejects a value \<open>a\<close> with \<open>a < limit\<close>, and
  \<open>MaxValueValidator(limit)\<close> one with \<open>a > limit\<close>.
\<close>

definition MinValueValidator :: "int \<Rightarrow> int \<Rightarrow> bool" where
  "MinValueValidator limit_value a = (\<not> a < limit_value)"

definition MaxValueValidator :: "int \<Rightarrow> int \<Rightarrow> bool" where
  "MaxValueValidator limit_value a = (\<not> a > limit_value)"

text \<open>\<open>validators=[MinValueValidator(1), MaxValueValidator(5)]\<close> of \<open>Review.rating\<close>\<close>

definition Review_rating_validators :: "(int \<Rightarrow> bool) list" where
  "Review_rating_validators = [MinValueValidator 1, MaxValueValidator 5]"

text \<open>
  The validation that both the model serializer and the admin's model form run
  before saving, as the names of the fields in error: the product must exist,
  the author is not blank and has at most 100 characters, the rating passes its
  validators, the comment is not blank.
\<close>

definition Review_errors :: "database \<Rightarrow> review_payload \<Rightarrow> string list" where
  "Review_errors db pl =
     (if list_ex (\<lambda>p. p_id p = rp_product pl) (Product_objects db) then [] else [''product'']) @
     (if rp_author pl = [] \<or> length (rp_author pl) > 100 then [''author''] else []) @
     (if list_all (\<lambda>validator. validator (rp_rating pl)) Review_rating_validators
      then [] else [''rating'']) @
     (if rp_comment pl = [] then [''comment''] else [])"

text \<open>Saving a new review at the time \<open>now\<close>: the new row and the new database.\<close>

definition Review_objects_create ::
  "database \<Rightarrow> nat \<Rightarrow> review_payload \<Rightarrow> review \<times> database" where
  "Review_objects_create db now pl =
     (let r = \<lparr>rv_id = Review_seq db, rv_product = rp_product pl,
                rv_author = rp_author pl, rv_rating = rp_rating pl,
                rv_comment = rp_comment pl, rv_created_at = now\<rparr>
      in (r, db\<lparr>Review_objects := Review_objects db @ [r],
                Review_seq := Review_seq db + 1\<rparr>))"

text \<open>\<open>ReviewSerializer\<close> with \<open>fields = '__all__'\<close>: every field of the model.\<close>

definition ReviewSerializer :: "review \<Rightarrow> json" where
  "ReviewSerializer r =
     JObject [(''id'', JInt (rv_id r)),
              (''product'', JInt (rv_product r)),
              (''author'', JStr (rv_author r)),
              (''rating'', JInt (rv_rating r)),
              (''comment'', JStr (rv_comment r)),
              (''created_at'', JTime (rv_created_at r))]"


text \<open>
  The body of a 400 response names the fields in error; the framework's messages
  are not modelled. \<open>not_found\<close> is its answer for a missing row.
\<close>

definition error_body :: "string list \<Rightarrow> json" where
  "error_body errs = JObject (map (\<lambda>f. (f, JArray [])) errs)"

definition not_found :: response where
  "not_found = Response (JObject [(''detail'', JStr ''Not found.'')]) 404"

text \<open>
  \<open>class ReviewViewSet(viewsets.ModelViewSet)\<close> over \<open>Review.objects.all()\<close>. A
  \<open>ModelViewSet\<close> has the actions \<open>list\<close>, \<open>create\<close>, \<open>retrieve\<close>, \<open>update\<close>
  and \<open>destroy\<close>, and the router maps \<open>GET\<close> and \<open>POST\<close> on \<open>/api/reviews/\<close> to
  the first two and \<open>GET\<close>, \<open>PUT\<close> and \<open>DELETE\<close> on \<open>/api/reviews/<pk>/\<close> to the
  others.
\<close>

text \<open>No pagination class is configured, so \<open>list\<close> returns the whole table.\<close>

definition ReviewViewSet_list :: "database \<Rightarrow> response" where
  "ReviewViewSet_list db = Response (JArray (map ReviewSerializer (Review_objects db))) 200"

definition ReviewViewSet_create ::
  "nat \<Rightarrow> database \<Rightarrow> review_payload \<Rightarrow> response \<times> database" where
  "ReviewViewSet_create now db pl =
     (case Review_errors db pl of
        [] \<Rightarrow>
          (Response (ReviewSerializer (fst (Review_objects_create db now pl))) 201,
           snd (Review_objects_create db now pl))
      | e # errs \<Rightarrow> (Response (error_body (e # errs)) 400, db))"

definition ReviewViewSet_retrieve :: "database \<Rightarrow> int \<Rightarrow> response" where
  "ReviewViewSet_retrieve db pk =
     (case find (\<lambda>r. rv_id r = pk) (Review_objects db) of
        None \<Rightarrow> not_found
      | Some r \<Rightarrow> Response (ReviewSerializer r) 200)"

definition ReviewViewSet_update ::
  "database \<Rightarrow> int \<Rightarrow> review_payload \<Rightarrow> response \<times> database" where
  "ReviewViewSet_update db pk pl =
     (case find (\<lambda>r. rv_id r = pk) (Review_objects db) of
        None \<Rightarrow> (not_found, db)
      | Some r \<Rightarrow>
          (case Review_errors db pl of
             [] \<Rightarrow>
               (let r' = r\<lparr>rv_product := rp_product pl, rv_author := rp_author pl,
                            rv_rating := rp_rating pl, rv_comment := rp_comment pl\<rparr>
                in (Response (ReviewSerializer r') 200,
                    db\<lparr>Review_objects :=
                         map (\<lambda>x. if rv_id x = pk then r' else x) (Review_objects db)\<rparr>))
           | e # errs \<Rightarrow> (Response (error_body (e # errs)) 400, db)))"

definition ReviewViewSet_destroy :: "database \<Rightarrow> int \<Rightarrow> response \<times> database" where
  "ReviewViewSet_destroy db pk =
     (case find (\<lambda>r. rv_id r = pk) (Review_objects db) of
        None \<Rightarrow> (not_found, db)
      | Some r \<Rightarrow>
          (Response JNull 204,
           db\<lparr>Review_objects := filter (\<lambda>x. rv_id x \<noteq> pk) (Review_objects db)\<rparr>))"


section \<open>Backend: the products resource\<close>

record product_payload =
  pp_name :: string
  pp_description :: string
  pp_price :: real
  pp_imageUrl :: string
  pp_category :: string

definition Product_objects_create :: "database \<Rightarrow> product_payload \<Rightarrow> product \<times> database" where
  "Product_objects_create db pl =
     (let p = \<lparr>p_id = Product_seq db, p_name = pp_name pl,
                p_description = pp_description pl, p_price = pp_price pl,
                p_imageUrl = pp_imageUrl pl, p_category = pp_category pl\<rparr>
      in (p, db\<lparr>Product_objects := Product_objects db @ [p],
                Product_seq := Product_seq db + 1\<rparr>))"

text \<open>\<open>ProductSerializer\<close> with \<open>fields = '__all__'\<close>\<close>

definition ProductSerializer :: "product \<Rightarrow> json" where
  "ProductSerializer p =
     JObject [(''id'', JInt (p_id p)),
              (''name'', JStr (p_name p)),
              (''description'', JStr (p_description p)),
              (''price'', JNum (p_price p)),
              (''imageUrl'', JStr (p_imageUrl p)),
              (''category'', JStr (p_category p))]"

text \<open>
  Modelled from the spec: the class \<open>ProductViewSet\<close> and the field declarations
  of the model \<open>Product\<close> are not among the sources; only the registration
  \<open>router.register(r'products', ProductViewSet)\<close> is. The spec gives the resource
  as \<open>GET/POST /api/products/\<close>: the list of all products, and the creation of
  one. The validation of a new product is the parameter \<open>valid_product\<close>.
\<close>

definition ProductViewSet_list :: "database \<Rightarrow> response" where
  "ProductViewSet_list db = Response (JArray (map ProductSerializer (Product_objects db))) 200"

definition ProductViewSet_create ::
  "(product_payload \<Rightarrow> bool) \<Rightarrow> database \<Rightarrow> product_payload \<Rightarrow> response \<times> database" where
  "ProductViewSet_create valid_product db pl =
     (if valid_product pl
      then (Response (ProductSerializer (fst (Product_objects_create db pl))) 201,
            snd (Product_objects_create db pl))
      else (Response (error_body []) 400, db))"


section \<open>Backend: the admin site\<close>

text \<open>
  \<open>admin.site.register(Product)\<close>, \<open>@admin.register(ProductView)\<close> and
  \<open>@admin.register(Review)\<close> give each model an "add" form. A valid form saves
  the new row and redirects (302); an invalid one is shown again (200) and saves
  nothing. The pages themselves are HTML and are not modelled.
\<close>

definition admin_add_product ::
  "(product_payload \<Rightarrow> bool) \<Rightarrow> database \<Rightarrow> product_payload \<Rightarrow> response \<times> database" where
  "admin_add_product valid_product db pl =
     (if valid_product pl then (Response JNull 302, snd (Product_objects_create db pl))
      else (Response JNull 200, db))"

definition admin_add_productview :: "nat \<Rightarrow> database \<Rightarrow> int \<Rightarrow> response \<times> database" where
  "admin_add_productview now db product_id =
     (case find (\<lambda>p. p_id p = product_id) (Product_objects db) of
        None \<Rightarrow> (Response JNull 200, db)
      | Some product \<Rightarrow> (Response JNull 302, ProductView_objects_create db now product))"

definition admin_add_review :: "nat \<Rightarrow> database \<Rightarrow> review_payload \<Rightarrow> response \<times> database" where
  "admin_add_review now db pl =
     (case Review_errors db pl of
        [] \<Rightarrow> (Response JNull 302, snd (Review_objects_create db now pl))
      | e # errs \<Rightarrow> (Response JNull 200, db))"


section \<open>Backend: the URL configuration\<close>

text \<open>
  One constructor per operation that \<open>urlpatterns\<close>, the router and the admin
  site offer; \<open>handle\<close> dispatches a request, received at the time \<open>now\<close>, to
  its view.
\<close>

datatype request =
    ProductsList
  | ProductsCreate product_payload
  | ReviewsList
  | ReviewsCreate review_payload
  | ReviewsRetrieve int
  | ReviewsUpdate int review_payload
  | ReviewsDestroy int
  | RecordView int
  | GetAnalytics
  | AdminAddProduct product_payload
  | AdminAddProductView int
  | AdminAddReview review_payload

fun handle ::
  "(product_payload \<Rightarrow> bool) \<Rightarrow> nat \<Rightarrow> request \<Rightarrow> database \<Rightarrow> exn + response \<times> database" where
  "handle vp now ProductsList db = Inr (ProductViewSet_list db, db)"
| "handle vp now (ProductsCreate pl) db = Inr (ProductViewSet_create vp db pl)"
| "handle vp now ReviewsList db = Inr (ReviewViewSet_list db, db)"
| "handle vp now (ReviewsCreate pl) db = Inr (ReviewViewSet_create now db pl)"
| "handle vp now (ReviewsRetrieve pk) db = Inr (ReviewViewSet_retrieve db pk, db)"
| "handle vp now (ReviewsUpdate pk pl) db = Inr (ReviewViewSet_update db pk pl)"
| "handle vp now (ReviewsDestroy pk) db = Inr (ReviewViewSet_destroy db pk)"
| "handle vp now (RecordView product_id) db = record_view now db product_id"
| "handle vp now GetAnalytics db = Inr (get_analytics db, db)"
| "handle vp now (AdminAddProduct pl) db = Inr (admin_add_product vp db pl)"
| "handle vp now (AdminAddProductView product_id) db =
     Inr (admin_add_productview now db product_id)"
| "handle vp now (AdminAddReview pl) db = Inr (admin_add_review now db pl)"

text \<open>
  The operations that the specification names: creation through the admin site
  or a \<open>POST\<close>, reading through the list and detail endpoints, recording a view
  and the analytics. The \<open>PUT\<close> and \<open>DELETE\<close> routes of the viewset are not among
  them.
\<close>

fun specified :: "request \<Rightarrow> bool" where
  "specified (ReviewsUpdate pk pl) = False"
| "specified (ReviewsDestroy pk) = False"
| "specified r = True"



text \<open>
  A history of requests, each with its arrival time. A request whose view raises
  is answered with a server error and changes nothing.
\<close>

fun run :: "(product_payload \<Rightarrow> bool) \<Rightarrow> (nat \<times> request) list \<Rightarrow> database \<Rightarrow> database" where
  "run vp [] db = db"
| "run vp (tr # rest) db =
     run vp rest (case handle vp (fst tr) (snd tr) db of
                    Inl e \<Rightarrow> db
                  | Inr out \<Rightarrow> snd out)"


section \<open>Sample data\<close>

text \<open>
  Three products, the last in a category outside \<open>CATEGORIES\<close>, and a database
  holding the first two and one view of the first. The worked examples below
  evaluate the program on them.
\<close>

definition demo_bib :: product where
  "demo_bib = \<lparr>p_id = 1, p_name = ''Bib'', p_description = ''Cotton bib'', p_price = 9,
                p_imageUrl = ''/bib.png'', p_category = ''bavoirs''\<rparr>"

definition demo_bear :: product where
  "demo_bear = \<lparr>p_id = 2, p_name = ''Bear'', p_description = ''Soft bear'', p_price = 15,
                 p_imageUrl = ''/bear.png'', p_category = ''doudous''\<rparr>"

definition demo_rattle :: product where
  "demo_rattle = \<lparr>p_id = 3, p_name = ''Rattle'', p_description = ''Wooden rattle'', p_price = 7,
                   p_imageUrl = ''/rattle.png'', p_category = ''jouets''\<rparr>"

definition demo_db :: database where
  "demo_db = \<lparr>Product_objects = [demo_bib, demo_bear],
               ProductView_objects = [\<lparr>pv_id = 1, pv_product = 1, pv_viewed_at = 100\<rparr>],
               Review_objects = [],
               Product_seq = 3, ProductView_seq = 2, Review_seq = 1\<rparr>"

text \<open>A review as the frontend receives it.\<close>

definition demo_review :: review_item where
  "demo_review = \<lparr>ri_id = 1, ri_product = 2, ri_author = ''Ada'', ri_rating = 4,
                   ri_comment = ''Lovely'', ri_created_at = ''2025-01-01T10:00:00Z''\<rparr>"

text \<open>
  A valid payload for a review of the bear, the row it is stored as when it
  arrives at the time 600, and a history of specified requests.
\<close>

definition demo_payload :: review_payload where
  "demo_payload = \<lparr>rp_product = 2, rp_author = ''Ada'', rp_rating = 4, rp_comment = ''Lovely''\<rparr>"

definition demo_stored :: review where
  "demo_stored = \<lparr>rv_id = 1, rv_product = 2, rv_author = ''Ada'', rv_rating = 4,
                   rv_comment = ''Lovely'', rv_created_at = 600\<rparr>"

definition demo_history :: "(nat \<times> request) list" where
  "demo_history =
     [(600, ReviewsCreate demo_payload), (610, RecordView 2), (620, GetAnalytics),
      (630, ReviewsList), (640, RecordView 9), (650, ReviewsRetrieve 1),
      (660, AdminAddProductView 1), (670, ProductsList)]"

lemmas demo = demo_bib_def demo_bear_def demo_rattle_def demo_db_def


section \<open>Properties of the product catalogue page\<close>

lemma cards_CategorySection: "cards (CategorySection c ps) = ps"
  by (induction ps) (simp_all add: CategorySection_def comp_def)

lemma heading_CategorySection:
  "heading (CategorySection c ps) = (if ps = [] then None else Some c)"
  by (simp add: CategorySection_def)

lemma count_list_filter_eq:
  "count_list (filter (\<lambda>q. f q = c) ps) p = (if f p = c then count_list ps p else 0)"
  by (induction ps) auto

lemma count_list_concat:
  "count_list (concat xss) p = sum_list (map (\<lambda>xs. count_list xs p) xss)"
  by (induction xss) simp_all

lemma sum_list_indicator:
  "distinct cs \<Longrightarrow>
   sum_list (map (\<lambda>c. if k = c then (n::nat) else 0) cs) = (if k \<in> set cs then n else 0)"
  by (induction cs) auto

lemma distinct_CATEGORIES: "distinct CATEGORIES"
  by (simp add: CATEGORIES_def)

lemma cards_Products:
  "cards (Products ps) = concat (map (\<lambda>c. filter (\<lambda>q. p_category q = c) ps) CATEGORIES)"
  by (simp add: Products_def comp_def cards_CategorySection)

lemma count_cards_Products:
  "count_list (cards (Products ps)) p =
     (if p_category p \<in> set CATEGORIES then count_list ps p else 0)"
  by (simp add: cards_Products count_list_concat comp_def count_list_filter_eq
      sum_list_indicator [OF distinct_CATEGORIES])

lemma count_list_distinct: "distinct ps \<Longrightarrow> q \<in> set ps \<Longrightarrow> count_list ps q = 1"
  by (induction ps) auto

lemma distinct_ids: "distinct (map p_id ps) \<Longrightarrow> distinct ps"
  by (simp add: distinct_map)

lemma card_in_CategorySection:
  "p \<in> set (cards (CategorySection c xs)) \<Longrightarrow>
   heading (CategorySection c xs) = Some c \<and> p \<in> set xs"
  by (cases xs) (simp_all add: cards_CategorySection heading_CategorySection)

lemma section_of_card:
  "s \<in> set (children (Products ps)) \<Longrightarrow> p \<in> set (cards s) \<Longrightarrow> heading s = Some (p_category p)"
  by (auto simp: Products_def dest!: card_in_CategorySection)

text \<open>
  C7. On the Products page, a product of the list whose category is one of
  \<open>CATEGORIES\<close> is rendered as exactly one \<open>ProductCard\<close>, inside the section
  headed by its own category; a product whose category is outside \<open>CATEGORIES\<close>
  is rendered in no section; and whatever section shows a product is headed by
  that product's category. The products of the list have distinct ids.
\<close>

theorem Products_cards:
  assumes "distinct (map p_id ps)" and "p \<in> set ps"
  shows "(p_category p \<in> set CATEGORIES \<longrightarrow>
            count_list (cards (Products ps)) p = 1 \<and>
            (\<exists>s \<in> set (children (Products ps)).
               heading s = Some (p_category p) \<and> p \<in> set (cards s))) \<and>
         (p_category p \<notin> set CATEGORIES \<longrightarrow>
            (\<forall>s \<in> set (children (Products ps)). p \<notin> set (cards s))) \<and>
         (\<forall>s \<in> set (children (Products ps)).
            p \<in> set (cards s) \<longrightarrow> heading s = Some (p_category p))"
proof (intro conjI impI ballI)
  assume c: "p_category p \<in> set CATEGORIES"
  show "count_list (cards (Products ps)) p = 1"
    using c assms by (simp add: count_cards_Products count_list_distinct distinct_ids)
  have "p \<in> set (filter (\<lambda>q. p_category q = p_category p) ps)"
    using assms(2) by simp
  then have "heading (CategorySection (p_category p) (filter (\<lambda>q. p_category q = p_category p) ps))
               = Some (p_category p) \<and>
             p \<in> set (cards (CategorySection (p_category p)
                    (filter (\<lambda>q. p_category q = p_category p) ps)))"
    by (auto simp: heading_CategorySection cards_CategorySection filter_empty_conv)
  moreover have "CategorySection (p_category p) (filter (\<lambda>q. p_category q = p_category p) ps)
      \<in> set (children (Products ps))"
    using c by (simp add: Products_def)
  ultimately show "\<exists>s \<in> set (children (Products ps)).
      heading s = Some (p_category p) \<and> p \<in> set (cards s)"
    by blast
next
  fix s
  assume "p_category p \<notin> set CATEGORIES" and "s \<in> set (children (Products ps))"
  then show "p \<notin> set (cards s)"
    by (auto simp: Products_def cards_CategorySection)
next
  fix s
  assume "s \<in> set (children (Products ps))" and "p \<in> set (cards s)"
  then show "heading s = Some (p_category p)" by (rule section_of_card)
qed

text \<open>
  The page of the three sample products: the bear has exactly one card, in the
  section \<open>doudous\<close>; the rattle, of category \<open>jouets\<close>, has none; the section of
  \<open>couvertures\<close> is \<open>null\<close>.
\<close>

theorem Products_cards_witness:
  "distinct (map p_id [demo_bib, demo_bear, demo_rattle]) \<and>
   demo_bear \<in> set [demo_bib, demo_bear, demo_rattle] \<and>
   p_category demo_bear \<in> set CATEGORIES \<and>
   count_list (cards (Products [demo_bib, demo_bear, demo_rattle])) demo_bear = 1 \<and>
   demo_rattle \<in> set [demo_bib, demo_bear, demo_rattle] \<and>
   p_category demo_rattle \<notin> set CATEGORIES \<and>
   demo_rattle \<notin> set (cards (Products [demo_bib, demo_bear, demo_rattle])) \<and>
   children (Products [demo_bib, demo_bear, demo_rattle]) =
     [Tag ''div'' [Tag ''h2'' [Text ''bavoirs''], Tag ''div'' [ProductCardE demo_bib]],
      Tag ''div'' [Tag ''h2'' [Text ''doudous''], Tag ''div'' [ProductCardE demo_bear]],
      Null]"
proof -
  have d: "distinct (map p_id [demo_bib, demo_bear, demo_rattle])"
    by (simp add: demo)
  have m: "demo_bear \<in> set [demo_bib, demo_bear, demo_rattle]" by simp
  have c: "p_category demo_bear \<in> set CATEGORIES" by (simp add: demo CATEGORIES_def)
  have r: "children (Products [demo_bib, demo_bear, demo_rattle]) =
     [Tag ''div'' [Tag ''h2'' [Text ''bavoirs''], Tag ''div'' [ProductCardE demo_bib]],
      Tag ''div'' [Tag ''h2'' [Text ''doudous''], Tag ''div'' [ProductCardE demo_bear]],
      Null]"
    by (simp add: Products_def CategorySection_def CATEGORIES_def demo)
  have n: "p_category demo_rattle \<notin> set CATEGORIES" by (simp add: demo CATEGORIES_def)
  have x: "demo_rattle \<notin> set (cards (Products [demo_bib, demo_bear, demo_rattle]))"
    by (simp add: Products_def CategorySection_def CATEGORIES_def demo)
  from Products_cards [OF d m] c d m r n x show ?thesis by simp
qed

text \<open>
  C9. For an empty products list \<open>CategorySection\<close> returns \<open>null\<close>, which has no
  heading and no card, and on the Products page a category that no product has
  is such a \<open>null\<close> child; for a non-empty list it renders the heading, which is
  the category, and one card per product, in the order of the list.
\<close>

theorem CategorySection_empty_or_cards:
  "CategorySection category [] = Null \<and>
   heading (CategorySection category []) = None \<and>
   cards (CategorySection category []) = [] \<and>
   ((\<forall>p \<in> set ps. p_category p \<noteq> category) \<longrightarrow>
      CategorySection category (filter (\<lambda>product. p_category product = category) ps) = Null) \<and>
   (products \<noteq> [] \<longrightarrow>
      CategorySection category products =
        Tag ''div'' [Tag ''h2'' [Text category], Tag ''div'' (map ProductCardE products)] \<and>
      heading (CategorySection category products) = Some category \<and>
      cards (CategorySection category products) = products \<and>
      length (cards (CategorySection category products)) = length products)"
proof -
  have "filter (\<lambda>product. p_category product = category) ps = []"
    if "\<forall>p \<in> set ps. p_category p \<noteq> category"
    using that by (simp add: filter_empty_conv)
  then show ?thesis
    by (simp add: cards_CategorySection heading_CategorySection) (simp add: CategorySection_def)
qed

text \<open>
  On the page of the bib and the bear, the section of \<open>couvertures\<close> is \<open>null\<close>;
  the section of \<open>bavoirs\<close> holds its heading and the bib's card.
\<close>

theorem CategorySection_empty_or_cards_witness:
  "CategorySection ''couvertures''
     (filter (\<lambda>product. p_category product = ''couvertures'') [demo_bib, demo_bear]) = Null \<and>
   [demo_bib] \<noteq> [] \<and>
   CategorySection ''bavoirs'' [demo_bib] =
     Tag ''div'' [Tag ''h2'' [Text ''bavoirs''], Tag ''div'' [ProductCardE demo_bib]] \<and>
   heading (CategorySection ''bavoirs'' [demo_bib]) = Some ''bavoirs'' \<and>
   cards (CategorySection ''bavoirs'' [demo_bib]) = [demo_bib]"
proof -
  have a: "\<forall>p \<in> set [demo_bib, demo_bear]. p_category p \<noteq> ''couvertures''"
    by (simp add: demo)
  have b: "[demo_bib] \<noteq> []" by simp
  from CategorySection_empty_or_cards [of "''couvertures''" "[demo_bib, demo_bear]" "[demo_bib]"]
    CategorySection_empty_or_cards [of "''bavoirs''" "[]" "[demo_bib]"] a b
  show ?thesis by simp
qed


section \<open>Properties of the star rating\<close>

lemma render_stars_in_range:
  assumes "1 \<le> r" and "r \<le> 5"
  shows "render_stars r = Inr (replicate (nat r) 0x2605 @ replicate (nat (5 - r)) 0x2606)"
  using assms by (simp add: render_stars_def js_repeat_def FILLED_STAR_def EMPTY_STAR_def)

lemma render_reviews_in_range:
  "\<forall>review \<in> set reviews. 1 \<le> ri_rating review \<and> ri_rating review \<le> 5 \<Longrightarrow>
   render_reviews reviews = Inr (map star_card reviews)"
  by (induction reviews) (simp_all add: render_review_def render_stars_in_range star_card_def)

text \<open>
  C10. For a review whose rating is an integer between 1 and 5, both repeat
  counts are non-negative, neither call of \<open>repeat\<close> throws, and the star string
  of its card is \<open>rating\<close> filled stars followed by \<open>5 - rating\<close> empty stars, 5
  code units in all; and when every review of the list is such, \<open>ReviewsSection\<close>
  renders these cards.
\<close>

theorem ReviewsSection_stars:
  "(1 \<le> ri_rating review \<and> ri_rating review \<le> 5 \<longrightarrow>
      0 \<le> ri_rating review \<and> 0 \<le> 5 - ri_rating review \<and>
      js_repeat FILLED_STAR (ri_rating review) =
        Inr (replicate (nat (ri_rating review)) 0x2605) \<and>
      js_repeat EMPTY_STAR (5 - ri_rating review) =
        Inr (replicate (nat (5 - ri_rating review)) 0x2606) \<and>
      render_stars (ri_rating review) =
        Inr (replicate (nat (ri_rating review)) 0x2605 @
             replicate (nat (5 - ri_rating review)) 0x2606) \<and>
      render_review review = Inr (star_card review) \<and>
      rc_stars (star_card review) =
        replicate (nat (ri_rating review)) 0x2605 @
        replicate (nat (5 - ri_rating review)) 0x2606 \<and>
      length (rc_stars (star_card review)) = 5) \<and>
   ((\<forall>review \<in> set reviews. 1 \<le> ri_rating review \<and> ri_rating review \<le> 5) \<longrightarrow>
      ReviewsSection reviews =
        Inr (if reviews = [] then None else Some (map star_card reviews)))"
proof (intro conjI impI)
  assume "\<forall>review \<in> set reviews. 1 \<le> ri_rating review \<and> ri_rating review \<le> 5"
  then show "ReviewsSection reviews =
      Inr (if reviews = [] then None else Some (map star_card reviews))"
    by (simp add: ReviewsSection_def render_reviews_in_range)
next
  assume "1 \<le> ri_rating review \<and> ri_rating review \<le> 5"
  then have r: "1 \<le> ri_rating review" "ri_rating review \<le> 5" by simp_all
  show "0 \<le> ri_rating review" using r by simp
  show "0 \<le> 5 - ri_rating review" using r by simp
  show "js_repeat FILLED_STAR (ri_rating review) = Inr (replicate (nat (ri_rating review)) 0x2605)"
    using r by (simp add: js_repeat_def FILLED_STAR_def)
  show "js_repeat EMPTY_STAR (5 - ri_rating review) =
          Inr (replicate (nat (5 - ri_rating review)) 0x2606)"
    using r by (simp add: js_repeat_def EMPTY_STAR_def)
  show "render_stars (ri_rating review) =
          Inr (replicate (nat (ri_rating review)) 0x2605 @
               replicate (nat (5 - ri_rating review)) 0x2606)"
    using r by (rule render_stars_in_range)
  show "render_review review = Inr (star_card review)"
    using r by (simp add: render_review_def render_stars_in_range star_card_def)
  show "rc_stars (star_card review) =
          replicate (nat (ri_rating review)) 0x2605 @
          replicate (nat (5 - ri_rating review)) 0x2606"
    by (simp add: star_card_def)
  show "length (rc_stars (star_card review)) = 5"
    using r by (simp add: star_card_def)
qed

text \<open>A review rated 4 is shown with four filled stars and one empty star.\<close>

theorem ReviewsSection_stars_witness:
  "1 \<le> ri_rating demo_review \<and> ri_rating demo_review \<le> 5 \<and>
   render_stars (ri_rating demo_review) = Inr [0x2605, 0x2605, 0x2605, 0x2605, 0x2606] \<and>
   length (rc_stars (star_card demo_review)) = 5 \<and>
   ReviewsSection [demo_review] =
     Inr (Some [\<lparr>rc_author = ''Ada'', rc_stars = [0x2605, 0x2605, 0x2605, 0x2605, 0x2606],
                 rc_comment = ''Lovely''\<rparr>])"
proof -
  have h: "1 \<le> ri_rating demo_review \<and> ri_rating demo_review \<le> 5"
    by (simp add: demo_review_def)
  then have hs: "\<forall>review \<in> set [demo_review]. 1 \<le> ri_rating review \<and> ri_rating review \<le> 5"
    by simp
  have s: "star_card demo_review =
      \<lparr>rc_author = ''Ada'', rc_stars = [0x2605, 0x2605, 0x2605, 0x2605, 0x2606],
       rc_comment = ''Lovely''\<rparr>"
    by (simp add: star_card_def demo_review_def eval_nat_numeral)
  have n: "replicate (nat (ri_rating demo_review)) (0x2605 :: 16 word) @
           replicate (nat (5 - ri_rating demo_review)) 0x2606 =
           [0x2605, 0x2605, 0x2605, 0x2605, 0x2606]"
    by (simp add: demo_review_def eval_nat_numeral)
  from ReviewsSection_stars [of demo_review "[demo_review]"] h hs
  have "render_stars (ri_rating demo_review) =
          Inr (replicate (nat (ri_rating demo_review)) 0x2605 @
               replicate (nat (5 - ri_rating demo_review)) 0x2606)"
       "length (rc_stars (star_card demo_review)) = 5"
       "ReviewsSection [demo_review] = Inr (Some (map star_card [demo_review]))"
    by (blast, blast, simp)
  with h s n show ?thesis by simp
qed


section \<open>Properties of the analytics\<close>

lemma left_outer_join_Nil: "left_outer_join [] vs = []"
  by (simp add: left_outer_join_def)

lemma left_outer_join_Cons:
  "left_outer_join (p # ps) vs = joined_rows vs p @ left_outer_join ps vs"
  by (simp add: left_outer_join_def)

lemma fst_joined_rows: "set (map fst (joined_rows vs p)) = {p}"
  by (auto simp: joined_rows_def split: list.splits)

lemma joined_rows_count:
  "length (filter (\<lambda>row. fst row = q \<and> snd row \<noteq> None) (joined_rows vs p)) =
     (if p = q then length (filter (\<lambda>v. pv_product v = p_id p) vs) else 0)"
  by (auto simp: joined_rows_def comp_def simp del: not_None_eq split: list.splits)

lemma remdups_block: "set xs = {p} \<Longrightarrow> remdups (xs @ ys) = remdups (p # ys)"
proof (induction xs)
  case Nil
  then show ?case by simp
next
  case (Cons x xs)
  then have x: "x = p" by auto
  show ?case
  proof (cases "xs = []")
    case True
    then show ?thesis using x by simp
  next
    case False
    then obtain y zs where xs: "xs = y # zs" by (cases xs) auto
    with Cons.prems have y: "y = p" by auto
    have s: "set xs = {p}" using Cons.prems xs y by auto
    have "p \<in> set xs" using xs y by simp
    with Cons.IH [OF s] x show ?thesis by simp
  qed
qed

lemma join_keys: "remdups (map fst (left_outer_join ps vs)) = remdups ps"
proof (induction ps)
  case Nil
  show ?case by (simp add: left_outer_join_Nil)
next
  case (Cons p ps)
  have "set (map fst (left_outer_join ps vs)) = set ps"
    using Cons.IH by (metis set_remdups)
  then show ?case
    using Cons.IH remdups_block [OF fst_joined_rows, of vs p "map fst (left_outer_join ps vs)"]
    by (simp add: left_outer_join_Cons)
qed

lemma join_count:
  "length (filter (\<lambda>row. fst row = q \<and> snd row \<noteq> None) (left_outer_join ps vs)) =
     count_list ps q * length (filter (\<lambda>v. pv_product v = p_id q) vs)"
  by (induction ps)
     (simp_all add: left_outer_join_Nil left_outer_join_Cons joined_rows_count del: not_None_eq)

text \<open>
  With the primary key unique, the grouped query yields one row per product,
  with the number of views that reference it.
\<close>

lemma annotate_view_count_eq:
  assumes "distinct (map p_id (Product_objects db))"
  shows "annotate_view_count db =
     map (\<lambda>p. (p, length (filter (\<lambda>v. pv_product v = p_id p) (ProductView_objects db))))
       (Product_objects db)"
proof -
  have "distinct (Product_objects db)" using assms by (rule distinct_ids)
  then show ?thesis
    by (simp add: annotate_view_count_def group_by_count_def join_keys join_count
        count_list_distinct distinct_remdups_id del: not_None_eq)
qed

lemma items_get_analytics:
  assumes "distinct (map p_id (Product_objects db))"
  shows "items (get_analytics db) = map (analytics_row db) (Product_objects db)"
  by (simp add: get_analytics_def annotate_view_count_eq [OF assms] comp_def
      values_id_name_view_count_def analytics_row_def)

lemma find_analytics_row:
  "distinct (map p_id ps) \<Longrightarrow> p \<in> set ps \<Longrightarrow>
   find (\<lambda>row. field ''id'' row = Some (JInt (p_id p))) (map (analytics_row db) ps)
     = Some (analytics_row db p)"
  by (induction ps) (auto simp: analytics_row_def)

lemma view_count_of_get_analytics:
  assumes "distinct (map p_id (Product_objects db))" and "p \<in> set (Product_objects db)"
  shows "view_count_of (get_analytics db) (p_id p) =
     Some (JInt (int (length (filter (\<lambda>v. pv_product v = p_id p) (ProductView_objects db)))))"
  using find_analytics_row [OF assms, of db]
  by (simp add: view_count_of_def items_get_analytics [OF assms(1)]) (simp add: analytics_row_def)

lemma keys_get_analytics:
  "list_all (\<lambda>row. keys row = [''id'', ''name'', ''view_count'']) (items (get_analytics db))"
  by (simp add: get_analytics_def values_id_name_view_count_def list_all_iff)

text \<open>
  C1. For every product, the \<open>view_count\<close> that \<open>get_analytics\<close> returns for it is
  the number of \<open>ProductView\<close> rows whose foreign key references it, and the
  response (status 200) is a list of records with exactly the fields \<open>id\<close>,
  \<open>name\<close> and \<open>view_count\<close>. The primary key of the products is unique.
\<close>

theorem get_analytics_view_count:
  assumes "distinct (map p_id (Product_objects db))" and "p \<in> set (Product_objects db)"
  shows "view_count_of (get_analytics db) (p_id p) =
           Some (JInt (int (length
             (filter (\<lambda>v. pv_product v = p_id p) (ProductView_objects db))))) \<and>
         status (get_analytics db) = 200 \<and>
         list_all (\<lambda>row. keys row = [''id'', ''name'', ''view_count''])
           (items (get_analytics db))"
  using view_count_of_get_analytics [OF assms] keys_get_analytics [of db]
  by (simp add: get_analytics_def)

text \<open>In the sample database the bib has one view, and the analytics say so.\<close>

theorem get_analytics_view_count_witness:
  "distinct (map p_id (Product_objects demo_db)) \<and>
   demo_bib \<in> set (Product_objects demo_db) \<and>
   length (filter (\<lambda>v. pv_product v = p_id demo_bib) (ProductView_objects demo_db)) = 1 \<and>
   view_count_of (get_analytics demo_db) 1 = Some (JInt 1) \<and>
   status (get_analytics demo_db) = 200"
proof -
  have d: "distinct (map p_id (Product_objects demo_db))" by (simp add: demo)
  have m: "demo_bib \<in> set (Product_objects demo_db)" by (simp add: demo)
  have n: "length (filter (\<lambda>v. pv_product v = p_id demo_bib) (ProductView_objects demo_db)) = 1"
    by (simp add: demo)
  have i: "p_id demo_bib = 1" by (simp add: demo)
  from get_analytics_view_count [OF d m] d m n i show ?thesis by simp
qed

text \<open>
  C8. \<open>get_analytics\<close> returns one record for every product, and a product that
  no \<open>ProductView\<close> row references is among them with \<open>view_count = 0\<close>. The
  primary key of the products is unique.
\<close>

theorem get_analytics_every_product:
  assumes "distinct (map p_id (Product_objects db))"
  shows "length (items (get_analytics db)) = length (Product_objects db) \<and>
         (\<forall>p \<in> set (Product_objects db).
            analytics_row db p \<in> set (items (get_analytics db)) \<and>
            view_count_of (get_analytics db) (p_id p) \<noteq> None \<and>
            ((\<forall>v \<in> set (ProductView_objects db). pv_product v \<noteq> p_id p) \<longrightarrow>
               JObject [(''id'', JInt (p_id p)), (''name'', JStr (p_name p)),
                        (''view_count'', JInt 0)] \<in> set (items (get_analytics db)) \<and>
               view_count_of (get_analytics db) (p_id p) = Some (JInt 0)))"
proof (intro conjI ballI impI)
  show "length (items (get_analytics db)) = length (Product_objects db)"
    by (simp add: items_get_analytics [OF assms])
next
  fix p
  assume p: "p \<in> set (Product_objects db)"
  show row: "analytics_row db p \<in> set (items (get_analytics db))"
    using p by (simp add: items_get_analytics [OF assms])
  show "view_count_of (get_analytics db) (p_id p) \<noteq> None"
    by (simp add: view_count_of_get_analytics [OF assms p])
  assume "\<forall>v \<in> set (ProductView_objects db). pv_product v \<noteq> p_id p"
  then have z: "filter (\<lambda>v. pv_product v = p_id p) (ProductView_objects db) = []"
    by (simp add: filter_empty_conv)
  show "JObject [(''id'', JInt (p_id p)), (''name'', JStr (p_name p)),
                 (''view_count'', JInt 0)] \<in> set (items (get_analytics db))"
    using row z by (simp add: analytics_row_def)
  show "view_count_of (get_analytics db) (p_id p) = Some (JInt 0)"
    using z by (simp add: view_count_of_get_analytics [OF assms p])
qed

text \<open>
  In the sample database the bear has no view; the analytics hold two records,
  the bear's with \<open>view_count = 0\<close>.
\<close>

theorem get_analytics_every_product_witness:
  "distinct (map p_id (Product_objects demo_db)) \<and>
   length (items (get_analytics demo_db)) = 2 \<and>
   demo_bear \<in> set (Product_objects demo_db) \<and>
   JObject [(''id'', JInt 2), (''name'', JStr ''Bear''), (''view_count'', JInt 0)]
     \<in> set (items (get_analytics demo_db)) \<and>
   view_count_of (get_analytics demo_db) 2 = Some (JInt 0)"
proof -
  have d: "distinct (map p_id (Product_objects demo_db))" by (simp add: demo)
  have m: "demo_bear \<in> set (Product_objects demo_db)" by (simp add: demo)
  have z: "\<forall>v \<in> set (ProductView_objects demo_db). pv_product v \<noteq> p_id demo_bear"
    by (simp add: demo)
  have l: "length (Product_objects demo_db) = 2" by (simp add: demo)
  have i: "p_id demo_bear = 2" "p_name demo_bear = ''Bear''" by (simp_all add: demo)
  from get_analytics_every_product [OF d] m z have
    "length (items (get_analytics demo_db)) = length (Product_objects demo_db)"
    "JObject [(''id'', JInt (p_id demo_bear)), (''name'', JStr (p_name demo_bear)),
              (''view_count'', JInt 0)] \<in> set (items (get_analytics demo_db))"
    "view_count_of (get_analytics demo_db) (p_id demo_bear) = Some (JInt 0)"
    by blast+
  with d m l i show ?thesis by simp
qed


section \<open>Properties of recording a view\<close>

lemma filter_by_key:
  "distinct (map f xs) \<Longrightarrow> x \<in> set xs \<Longrightarrow> filter (\<lambda>y. f y = f x) xs = [x]"
proof (induction xs)
  case Nil
  then show ?case by simp
next
  case (Cons a xs)
  show ?case
  proof (cases "a = x")
    case True
    have "f x \<notin> f ` set xs" using Cons.prems(1) True by simp
    then have "\<forall>y \<in> set xs. f y \<noteq> f x" by (metis imageI)
    then have "filter (\<lambda>y. f y = f x) xs = []"
      by (simp add: filter_empty_conv)
    with True show ?thesis by simp
  next
    case False
    with Cons.prems have x: "x \<in> set xs" by simp
    then have "f a \<noteq> f x" using Cons.prems(1) by auto
    with Cons.IH x Cons.prems(1) show ?thesis by simp
  qed
qed

lemma Product_objects_get_existing:
  assumes "distinct (map p_id (Product_objects db))" and "p \<in> set (Product_objects db)"
  shows "Product_objects_get db (p_id p) = Inr p"
  by (simp add: Product_objects_get_def filter_by_key [OF assms])

lemma Product_objects_get_missing:
  assumes "\<forall>p \<in> set (Product_objects db). p_id p \<noteq> i"
  shows "Product_objects_get db i = Inl DoesNotExist"
proof -
  have "filter (\<lambda>p. p_id p = i) (Product_objects db) = []"
    using assms by (simp add: filter_empty_conv)
  then show ?thesis by (simp add: Product_objects_get_def)
qed

text \<open>
  C2. For a \<open>product_id\<close> that is the id of no product, \<open>record_view\<close> answers with
  status 404 and the body \<open>{"error": "Product not found"}\<close>, and the database is
  unchanged: no \<open>ProductView\<close> row is created.
\<close>

theorem record_view_not_found:
  assumes "\<forall>p \<in> set (Product_objects db). p_id p \<noteq> product_id"
  shows "record_view now db product_id =
           Inr (Response (JObject [(''error'', JStr ''Product not found'')]) 404, db)"
  by (simp add: record_view_def Product_objects_get_missing [OF assms])

text \<open>No sample product has the id 7: the answer is the 404, the database as before.\<close>

theorem record_view_not_found_witness:
  "list_all (\<lambda>p. p_id p \<noteq> 7) (Product_objects demo_db) \<and>
   record_view 500 demo_db 7 =
     Inr (Response (JObject [(''error'', JStr ''Product not found'')]) 404, demo_db)"
proof -
  have h: "\<forall>p \<in> set (Product_objects demo_db). p_id p \<noteq> 7" by (simp add: demo)
  from record_view_not_found [OF h, of 500] h show ?thesis by (simp add: list_all_iff)
qed

text \<open>
  C4. For an existing product \<open>p\<close>, \<open>record_view\<close> answers \<open>{"status": "recorded"}\<close>
  (status 200) and appends exactly one \<open>ProductView\<close> row, which references \<open>p\<close>;
  the products, the reviews and the earlier views are as before. In the
  analytics the count of \<open>p\<close> goes up by one and every other product's count
  stays. The primary key of the products is unique.
\<close>

theorem record_view_recorded:
  assumes "distinct (map p_id (Product_objects db))" and "p \<in> set (Product_objects db)"
  shows "\<exists>v db'.
           record_view now db (p_id p) =
             Inr (Response (JObject [(''status'', JStr ''recorded'')]) 200, db') \<and>
           ProductView_objects db' = ProductView_objects db @ [v] \<and>
           pv_product v = p_id p \<and>
           Product_objects db' = Product_objects db \<and>
           Review_objects db' = Review_objects db \<and>
           (\<forall>q \<in> set (Product_objects db).
              \<exists>n. view_count_of (get_analytics db) (p_id q) = Some (JInt n) \<and>
                  view_count_of (get_analytics db') (p_id q) =
                    Some (JInt (if q = p then n + 1 else n)))"
proof -
  define v where "v = \<lparr>pv_id = ProductView_seq db, pv_product = p_id p, pv_viewed_at = now\<rparr>"
  define db' where "db' = ProductView_objects_create db now p"
  have r: "record_view now db (p_id p) =
             Inr (Response (JObject [(''status'', JStr ''recorded'')]) 200, db')"
    by (simp add: record_view_def Product_objects_get_existing [OF assms] db'_def)
  have vs: "ProductView_objects db' = ProductView_objects db @ [v]"
    by (simp add: db'_def v_def ProductView_objects_create_def)
  have ref: "pv_product v = p_id p" by (simp add: v_def)
  have ps: "Product_objects db' = Product_objects db"
    by (simp add: db'_def ProductView_objects_create_def)
  have rs: "Review_objects db' = Review_objects db"
    by (simp add: db'_def ProductView_objects_create_def)
  have d': "distinct (map p_id (Product_objects db'))" using assms(1) ps by simp
  have counts: "\<exists>n. view_count_of (get_analytics db) (p_id q) = Some (JInt n) \<and>
                  view_count_of (get_analytics db') (p_id q) =
                    Some (JInt (if q = p then n + 1 else n))"
    if q: "q \<in> set (Product_objects db)" for q
  proof -
    have q': "q \<in> set (Product_objects db')" using q ps by simp
    have ids: "p_id q = p_id p \<longleftrightarrow> q = p"
      using assms q by (auto simp: distinct_map dest: inj_onD)
    have "view_count_of (get_analytics db') (p_id q) =
            Some (JInt (if q = p
              then int (length (filter (\<lambda>v. pv_product v = p_id q) (ProductView_objects db))) + 1
              else int (length (filter (\<lambda>v. pv_product v = p_id q) (ProductView_objects db)))))"
      using ids by (auto simp: view_count_of_get_analytics [OF d' q'] vs ref)
    then show ?thesis
      using view_count_of_get_analytics [OF assms(1) q] by blast
  qed
  from r vs ref ps rs counts show ?thesis by blast
qed

text \<open>
  A view of the bib, recorded at the time 500 in the sample database: one new
  row, with the next id, referencing the bib.
\<close>

theorem record_view_recorded_witness:
  "distinct (map p_id (Product_objects demo_db)) \<and>
   demo_bib \<in> set (Product_objects demo_db) \<and>
   record_view 500 demo_db 1 =
     Inr (Response (JObject [(''status'', JStr ''recorded'')]) 200,
          demo_db\<lparr>ProductView_objects :=
                    [\<lparr>pv_id = 1, pv_product = 1, pv_viewed_at = 100\<rparr>,
                     \<lparr>pv_id = 2, pv_product = 1, pv_viewed_at = 500\<rparr>],
                  ProductView_seq := 3\<rparr>) \<and>
   (\<exists>v db'.
      record_view 500 demo_db (p_id demo_bib) =
        Inr (Response (JObject [(''status'', JStr ''recorded'')]) 200, db') \<and>
      ProductView_objects db' = ProductView_objects demo_db @ [v] \<and>
      pv_product v = p_id demo_bib)"
proof -
  have d: "distinct (map p_id (Product_objects demo_db))" by (simp add: demo)
  have m: "demo_bib \<in> set (Product_objects demo_db)" by (simp add: demo)
  have e: "record_view 500 demo_db 1 =
     Inr (Response (JObject [(''status'', JStr ''recorded'')]) 200,
          demo_db\<lparr>ProductView_objects :=
                    [\<lparr>pv_id = 1, pv_product = 1, pv_viewed_at = 100\<rparr>,
                     \<lparr>pv_id = 2, pv_product = 1, pv_viewed_at = 500\<rparr>],
                  ProductView_seq := 3\<rparr>)"
    by (simp add: record_view_def Product_objects_get_def ProductView_objects_create_def demo)
  from record_view_recorded [OF d m, of 500] have
    "\<exists>v db'.
      record_view 500 demo_db (p_id demo_bib) =
        Inr (Response (JObject [(''status'', JStr ''recorded'')]) 200, db') \<and>
      ProductView_objects db' = ProductView_objects demo_db @ [v] \<and>
      pv_product v = p_id demo_bib"
    by blast
  with d m e show ?thesis by blast
qed


section \<open>Properties of the reviews resource and of histories\<close>

subsection \<open>Validation\<close>

lemma rating_validators_iff:
  "list_all (\<lambda>validator. validator a) Review_rating_validators \<longleftrightarrow> 1 \<le> a \<and> a \<le> 5"
  by (auto simp: Review_rating_validators_def MinValueValidator_def MaxValueValidator_def)

lemma Review_errors_Nil_rating:
  "Review_errors db pl = [] \<Longrightarrow> 1 \<le> rp_rating pl \<and> rp_rating pl \<le> 5"
  by (simp add: Review_errors_def rating_validators_iff split: if_splits)

lemma Review_errors_out_of_range:
  "rp_rating pl < 1 \<or> 5 < rp_rating pl \<Longrightarrow> Review_errors db pl \<noteq> []"
  using Review_errors_Nil_rating [of db pl] by auto

lemma Review_objects_create_rows:
  "Review_objects (snd (Review_objects_create db now pl)) =
     Review_objects db @ [fst (Review_objects_create db now pl)]"
  "Product_objects (snd (Review_objects_create db now pl)) = Product_objects db"
  "ProductView_objects (snd (Review_objects_create db now pl)) = ProductView_objects db"
  "rv_rating (fst (Review_objects_create db now pl)) = rp_rating pl"
  by (simp_all add: Review_objects_create_def Let_def)

lemma ReviewViewSet_create_valid:
  "Review_errors db pl = [] \<Longrightarrow>
   ReviewViewSet_create now db pl =
     (Response (ReviewSerializer (fst (Review_objects_create db now pl))) 201,
      snd (Review_objects_create db now pl))"
  by (simp add: ReviewViewSet_create_def)

lemma ReviewViewSet_create_invalid:
  "Review_errors db pl \<noteq> [] \<Longrightarrow> snd (ReviewViewSet_create now db pl) = db"
  by (simp add: ReviewViewSet_create_def split: list.splits)

lemma admin_add_review_valid:
  "Review_errors db pl = [] \<Longrightarrow>
   admin_add_review now db pl = (Response JNull 302, snd (Review_objects_create db now pl))"
  by (simp add: admin_add_review_def)

lemma admin_add_review_invalid:
  "Review_errors db pl \<noteq> [] \<Longrightarrow> snd (admin_add_review now db pl) = db"
  by (simp add: admin_add_review_def split: list.splits)

subsection \<open>One request\<close>

lemma Product_objects_create_rows:
  "Product_objects (snd (Product_objects_create db pl)) =
     Product_objects db @ [fst (Product_objects_create db pl)]"
  "Review_objects (snd (Product_objects_create db pl)) = Review_objects db"
  "ProductView_objects (snd (Product_objects_create db pl)) = ProductView_objects db"
  by (simp_all add: Product_objects_create_def Let_def)

lemma ProductView_objects_create_rows:
  "Product_objects (ProductView_objects_create db now p) = Product_objects db"
  "Review_objects (ProductView_objects_create db now p) = Review_objects db"
  "prefix (ProductView_objects db) (ProductView_objects (ProductView_objects_create db now p))"
  by (simp_all add: ProductView_objects_create_def)

lemma record_view_tables:
  assumes "record_view now db i = Inr (resp, db')"
  shows "Product_objects db' = Product_objects db \<and> Review_objects db' = Review_objects db \<and>
         prefix (ProductView_objects db) (ProductView_objects db')"
  using assms
  by (auto simp: record_view_def ProductView_objects_create_rows split: sum.splits exn.splits)

lemma handle_reviews:
  assumes "handle vp now r db = Inr (resp, db')"
  shows "\<forall>x \<in> set (Review_objects db').
           x \<in> set (Review_objects db) \<or> (1 \<le> rv_rating x \<and> rv_rating x \<le> 5)"
proof (cases r)
  case (ReviewsCreate pl)
  with assms show ?thesis
    by (cases "Review_errors db pl")
       (auto simp: ReviewViewSet_create_def Review_objects_create_rows
          dest: Review_errors_Nil_rating)
next
  case (AdminAddReview pl)
  with assms show ?thesis
    by (cases "Review_errors db pl")
       (auto simp: admin_add_review_def Review_objects_create_rows
          dest: Review_errors_Nil_rating)
next
  case (ReviewsUpdate pk pl)
  have ok: "1 \<le> rp_rating pl \<and> rp_rating pl \<le> 5" if "Review_errors db pl = []"
    using that by (rule Review_errors_Nil_rating)
  from assms ReviewsUpdate ok show ?thesis
    by (cases "Review_errors db pl")
       (auto simp: ReviewViewSet_update_def Let_def split: option.splits)
next
  case (ReviewsDestroy pk)
  with assms show ?thesis
    by (auto simp: ReviewViewSet_destroy_def split: option.splits)
next
  case (RecordView i)
  with assms show ?thesis using record_view_tables [of now db i resp db'] by simp
next
  case (ProductsCreate pl)
  with assms show ?thesis
    by (auto simp: ProductViewSet_create_def Product_objects_create_rows split: if_splits)
next
  case (AdminAddProduct pl)
  with assms show ?thesis
    by (auto simp: admin_add_product_def Product_objects_create_rows split: if_splits)
next
  case (AdminAddProductView i)
  with assms show ?thesis
    by (auto simp: admin_add_productview_def ProductView_objects_create_rows split: option.splits)
qed (use assms in auto)

lemma handle_specified_prefix:
  assumes "specified r" and "handle vp now r db = Inr (resp, db')"
  shows "prefix (Product_objects db) (Product_objects db') \<and>
         prefix (ProductView_objects db) (ProductView_objects db') \<and>
         prefix (Review_objects db) (Review_objects db')"
proof (cases r)
  case (ReviewsCreate pl)
  with assms show ?thesis
    by (cases "Review_errors db pl")
       (auto simp: ReviewViewSet_create_def Review_objects_create_rows)
next
  case (AdminAddReview pl)
  with assms show ?thesis
    by (cases "Review_errors db pl")
       (auto simp: admin_add_review_def Review_objects_create_rows)
next
  case (RecordView i)
  with assms show ?thesis using record_view_tables [of now db i resp db'] by simp
next
  case (ProductsCreate pl)
  with assms show ?thesis
    by (auto simp: ProductViewSet_create_def Product_objects_create_rows split: if_splits)
next
  case (AdminAddProduct pl)
  with assms show ?thesis
    by (auto simp: admin_add_product_def Product_objects_create_rows split: if_splits)
next
  case (AdminAddProductView i)
  with assms show ?thesis
    by (auto simp: admin_add_productview_def ProductView_objects_create_rows split: option.splits)
qed (use assms in auto)

subsection \<open>Histories\<close>

lemma run_reviews:
  "\<forall>x \<in> set (Review_objects (run vp rs db)).
     x \<in> set (Review_objects db) \<or> (1 \<le> rv_rating x \<and> rv_rating x \<le> 5)"
proof (induction rs arbitrary: db)
  case Nil
  show ?case by simp
next
  case (Cons tr rs)
  show ?case
  proof (cases "handle vp (fst tr) (snd tr) db")
    case (Inl e)
    then show ?thesis using Cons.IH [of db] by simp
  next
    case (Inr out)
    then have h: "handle vp (fst tr) (snd tr) db = Inr (fst out, snd out)" by simp
    have run: "run vp (tr # rs) db = run vp rs (snd out)" using Inr by simp
    show ?thesis
      unfolding run using Cons.IH [of "snd out"] handle_reviews [OF h] by blast
  qed
qed

lemma run_specified_prefix:
  "list_all specified (map snd rs) \<Longrightarrow>
   prefix (Product_objects db) (Product_objects (run vp rs db)) \<and>
   prefix (ProductView_objects db) (ProductView_objects (run vp rs db)) \<and>
   prefix (Review_objects db) (Review_objects (run vp rs db))"
proof (induction rs arbitrary: db)
  case Nil
  show ?case by simp
next
  case (Cons tr rs)
  then have s: "specified (snd tr)" and rest: "list_all specified (map snd rs)" by simp_all
  show ?case
  proof (cases "handle vp (fst tr) (snd tr) db")
    case (Inl e)
    then show ?thesis using Cons.IH [OF rest, of db] by simp
  next
    case (Inr out)
    then have h: "handle vp (fst tr) (snd tr) db = Inr (fst out, snd out)" by simp
    have run: "run vp (tr # rs) db = run vp rs (snd out)" using Inr by simp
    show ?thesis
      unfolding run
      using Cons.IH [OF rest, of "snd out"] handle_specified_prefix [OF s h]
      by (meson prefix_order.order_trans)
  qed
qed

lemmas views = ReviewViewSet_create_def ReviewViewSet_list_def ReviewViewSet_retrieve_def
  admin_add_review_def admin_add_product_def admin_add_productview_def
  ProductViewSet_create_def ProductViewSet_list_def
  Review_errors_def Review_rating_validators_def MinValueValidator_def MaxValueValidator_def
  Review_objects_create_def Product_objects_create_def ProductView_objects_create_def
  record_view_def Product_objects_get_def Let_def

lemma demo_payload_valid: "Review_errors demo_db demo_payload = []"
  by (simp add: views demo demo_payload_def)


subsection \<open>Ratings\<close>

text \<open>
  C3. A review is stored, by the \<open>POST\<close> of the API and by the admin form alike,
  only when its payload passes the validation, and then its rating is the
  payload's and lies between 1 and 5; a payload whose rating is below 1 or above
  5 is rejected and stores nothing. Hence, after any history of requests, every
  review that was not in the database at the start has a rating between 1 and 5.
\<close>

theorem Review_rating_bounds:
  "(Review_errors db pl = [] \<longrightarrow>
      1 \<le> rp_rating pl \<and> rp_rating pl \<le> 5 \<and>
      rv_rating (fst (Review_objects_create db now pl)) = rp_rating pl \<and>
      Review_objects (snd (ReviewViewSet_create now db pl)) =
        Review_objects db @ [fst (Review_objects_create db now pl)] \<and>
      Review_objects (snd (admin_add_review now db pl)) =
        Review_objects db @ [fst (Review_objects_create db now pl)]) \<and>
   (Review_errors db pl \<noteq> [] \<longrightarrow>
      snd (ReviewViewSet_create now db pl) = db \<and> snd (admin_add_review now db pl) = db) \<and>
   (rp_rating pl < 1 \<or> 5 < rp_rating pl \<longrightarrow> Review_errors db pl \<noteq> []) \<and>
   (\<forall>x \<in> set (Review_objects (run vp rs db)).
      x \<in> set (Review_objects db) \<or> (1 \<le> rv_rating x \<and> rv_rating x \<le> 5))"
proof (intro conjI impI)
  assume v: "Review_errors db pl = []"
  show "1 \<le> rp_rating pl" "rp_rating pl \<le> 5"
    using Review_errors_Nil_rating [OF v] by simp_all
  show "rv_rating (fst (Review_objects_create db now pl)) = rp_rating pl"
    by (simp add: Review_objects_create_rows)
  show "Review_objects (snd (ReviewViewSet_create now db pl)) =
          Review_objects db @ [fst (Review_objects_create db now pl)]"
    by (simp add: ReviewViewSet_create_valid [OF v] Review_objects_create_rows)
  show "Review_objects (snd (admin_add_review now db pl)) =
          Review_objects db @ [fst (Review_objects_create db now pl)]"
    by (simp add: admin_add_review_valid [OF v] Review_objects_create_rows)
next
  assume e: "Review_errors db pl \<noteq> []"
  show "snd (ReviewViewSet_create now db pl) = db" using e by (rule ReviewViewSet_create_invalid)
  show "snd (admin_add_review now db pl) = db" using e by (rule admin_add_review_invalid)
next
  assume "rp_rating pl < 1 \<or> 5 < rp_rating pl"
  then show "Review_errors db pl \<noteq> []" by (rule Review_errors_out_of_range)
next
  show "\<forall>x \<in> set (Review_objects (run vp rs db)).
      x \<in> set (Review_objects db) \<or> (1 \<le> rv_rating x \<and> rv_rating x \<le> 5)"
    by (rule run_reviews)
qed

text \<open>
  In the sample database the payload rated 4 is stored by both paths; rated 7 it
  is rejected for its rating and stores nothing; and of three creations, rated
  4, 7 and 0, only the first leaves a row.
\<close>

theorem Review_rating_bounds_witness:
  "Review_errors demo_db demo_payload = [] \<and>
   Review_objects (snd (ReviewViewSet_create 600 demo_db demo_payload)) = [demo_stored] \<and>
   Review_objects (snd (admin_add_review 600 demo_db demo_payload)) = [demo_stored] \<and>
   rv_rating demo_stored = 4 \<and>
   Review_errors demo_db (demo_payload\<lparr>rp_rating := 7\<rparr>) = [''rating''] \<and>
   snd (ReviewViewSet_create 601 demo_db (demo_payload\<lparr>rp_rating := 7\<rparr>)) = demo_db \<and>
   snd (admin_add_review 601 demo_db (demo_payload\<lparr>rp_rating := 7\<rparr>)) = demo_db \<and>
   Review_objects
     (run (\<lambda>pl. True)
        [(600, ReviewsCreate demo_payload),
         (601, ReviewsCreate (demo_payload\<lparr>rp_rating := 7\<rparr>)),
         (602, AdminAddReview (demo_payload\<lparr>rp_rating := 0\<rparr>))] demo_db) = [demo_stored]"
proof -
  have v: "Review_errors demo_db demo_payload = []" by (rule demo_payload_valid)
  have n: "fst (Review_objects_create demo_db 600 demo_payload) = demo_stored"
    by (simp add: views demo demo_payload_def demo_stored_def)
  have e: "Review_errors demo_db (demo_payload\<lparr>rp_rating := 7\<rparr>) = [''rating'']"
    by (simp add: views demo demo_payload_def)
  then have e': "Review_errors demo_db (demo_payload\<lparr>rp_rating := 7\<rparr>) \<noteq> []" by simp
  have r: "Review_objects
     (run (\<lambda>pl. True)
        [(600, ReviewsCreate demo_payload),
         (601, ReviewsCreate (demo_payload\<lparr>rp_rating := 7\<rparr>)),
         (602, AdminAddReview (demo_payload\<lparr>rp_rating := 0\<rparr>))] demo_db) = [demo_stored]"
    by (simp add: views demo demo_payload_def demo_stored_def)
  have s: "rv_rating demo_stored = 4" by (simp add: demo_stored_def)
  have empty: "Review_objects demo_db = []" by (simp add: demo)
  from Review_rating_bounds [of demo_db demo_payload 600] v n empty
  have a: "Review_objects (snd (ReviewViewSet_create 600 demo_db demo_payload)) = [demo_stored]"
          "Review_objects (snd (admin_add_review 600 demo_db demo_payload)) = [demo_stored]"
    by simp_all
  from Review_rating_bounds [of demo_db "demo_payload\<lparr>rp_rating := 7\<rparr>" 601] e'
  have b: "snd (ReviewViewSet_create 601 demo_db (demo_payload\<lparr>rp_rating := 7\<rparr>)) = demo_db"
          "snd (admin_add_review 601 demo_db (demo_payload\<lparr>rp_rating := 7\<rparr>)) = demo_db"
    by simp_all
  from v a s e b r show ?thesis by simp
qed

subsection \<open>Persistence\<close>

text \<open>
  C5. Under every history of specified operations each table only grows at its
  end: the rows of products, of views and of reviews that were stored at the
  start are still there afterwards, in the same places and with the same
  contents. None is updated and none is deleted.
\<close>

theorem records_persist:
  assumes "list_all specified (map snd rs)"
  shows "prefix (Product_objects db) (Product_objects (run vp rs db)) \<and>
         prefix (ProductView_objects db) (ProductView_objects (run vp rs db)) \<and>
         prefix (Review_objects db) (Review_objects (run vp rs db))"
  using assms by (rule run_specified_prefix)

text \<open>
  The sample history leaves the products as they were and appends two views and
  one review; the view stored at the start is still the first row.
\<close>

theorem records_persist_witness:
  "list_all specified (map snd demo_history) \<and>
   Product_objects (run (\<lambda>pl. True) demo_history demo_db) = Product_objects demo_db \<and>
   ProductView_objects (run (\<lambda>pl. True) demo_history demo_db) =
     ProductView_objects demo_db @
       [\<lparr>pv_id = 2, pv_product = 2, pv_viewed_at = 610\<rparr>,
        \<lparr>pv_id = 3, pv_product = 1, pv_viewed_at = 660\<rparr>] \<and>
   Review_objects (run (\<lambda>pl. True) demo_history demo_db) =
     Review_objects demo_db @ [demo_stored] \<and>
   prefix (ProductView_objects demo_db)
     (ProductView_objects (run (\<lambda>pl. True) demo_history demo_db))"
proof -
  have s: "list_all specified (map snd demo_history)" by (simp add: demo_history_def)
  have r: "run (\<lambda>pl. True) demo_history demo_db =
      demo_db\<lparr>ProductView_objects :=
                 [\<lparr>pv_id = 1, pv_product = 1, pv_viewed_at = 100\<rparr>,
                  \<lparr>pv_id = 2, pv_product = 2, pv_viewed_at = 610\<rparr>,
                  \<lparr>pv_id = 3, pv_product = 1, pv_viewed_at = 660\<rparr>],
               Review_objects := [demo_stored], ProductView_seq := 4, Review_seq := 2\<rparr>"
    by (simp add: demo_history_def views demo demo_payload_def demo_stored_def)
  from records_persist [OF s, of demo_db "\<lambda>pl. True"] s show ?thesis
    by (simp add: r) (simp add: demo)
qed

text \<open>
  The two routes left out of \<open>specified\<close> do change stored rows: a \<open>DELETE\<close>
  removes the review, a \<open>PUT\<close> overwrites it.
\<close>

lemma ReviewViewSet_destroy_removes:
  "Review_objects (snd (ReviewViewSet_destroy (demo_db\<lparr>Review_objects := [demo_stored]\<rparr>) 1)) = []"
  by (simp add: ReviewViewSet_destroy_def demo demo_stored_def)

lemma ReviewViewSet_update_overwrites:
  "Review_objects
     (snd (ReviewViewSet_update (demo_db\<lparr>Review_objects := [demo_stored]\<rparr>) 1
        (demo_payload\<lparr>rp_rating := 2\<rparr>))) = [demo_stored\<lparr>rv_rating := 2\<rparr>]"
  by (simp add: ReviewViewSet_update_def views demo demo_stored_def demo_payload_def)

subsection \<open>The reviews list\<close>














section \<open>The primary key of the products\<close>

text \<open>
  The properties of the analytics and of recording a view assume that no two
  products share an id. Every database that a history of requests builds from
  the empty one is such.
\<close>

lemma Product_pk_create: "Product_pk db \<Longrightarrow> Product_pk (snd (Product_objects_create db pl))"
  by (auto simp: Product_pk_def Product_objects_create_def Let_def list_all_iff)

lemma Product_pk_same:
  "Product_objects db' = Product_objects db \<Longrightarrow> Product_seq db' = Product_seq db \<Longrightarrow>
   Product_pk db \<Longrightarrow> Product_pk db'"
  by (simp add: Product_pk_def)

lemma handle_Product_pk:
  assumes "Product_pk db" and "handle vp now r db = Inr (resp, db')"
  shows "Product_pk db'"
proof (cases r)
  case (ProductsCreate pl)
  with assms show ?thesis
    by (auto simp: ProductViewSet_create_def Product_pk_create split: if_splits)
next
  case (AdminAddProduct pl)
  with assms show ?thesis
    by (auto simp: admin_add_product_def Product_pk_create split: if_splits)
next
  case (ReviewsCreate pl)
  with assms show ?thesis
    by (cases "Review_errors db pl")
       (auto simp: ReviewViewSet_create_def Review_objects_create_def Let_def
          elim: Product_pk_same [rotated 2])
next
  case (AdminAddReview pl)
  with assms show ?thesis
    by (cases "Review_errors db pl")
       (auto simp: admin_add_review_def Review_objects_create_def Let_def
          elim: Product_pk_same [rotated 2])
next
  case (ReviewsUpdate pk pl)
  with assms show ?thesis
    by (cases "Review_errors db pl")
       (auto simp: ReviewViewSet_update_def Let_def split: option.splits
          elim: Product_pk_same [rotated 2])
next
  case (ReviewsDestroy pk)
  with assms show ?thesis
    by (auto simp: ReviewViewSet_destroy_def split: option.splits
          elim: Product_pk_same [rotated 2])
next
  case (RecordView i)
  with assms show ?thesis
    by (auto simp: record_view_def ProductView_objects_create_def
          split: sum.splits exn.splits elim: Product_pk_same [rotated 2])
next
  case (AdminAddProductView i)
  with assms show ?thesis
    by (auto simp: admin_add_productview_def ProductView_objects_create_def
          split: option.splits elim: Product_pk_same [rotated 2])
qed (use assms in auto)

lemma run_Product_pk: "Product_pk db \<Longrightarrow> Product_pk (run vp rs db)"
proof (induction rs arbitrary: db)
  case Nil
  then show ?case by simp
next
  case (Cons tr rs)
  show ?case
  proof (cases "handle vp (fst tr) (snd tr) db")
    case (Inl e)
    then show ?thesis using Cons by simp
  next
    case (Inr out)
    then have "handle vp (fst tr) (snd tr) db = Inr (fst out, snd out)" by simp
    then have "Product_pk (snd out)" using Cons.prems handle_Product_pk by blast
    then show ?thesis using Inr Cons.IH by simp
  qed
qed

lemma reachable_primary_key:
  "distinct (map p_id (Product_objects (run vp rs empty_database)))"
proof -
  have "Product_pk empty_database" by (simp add: Product_pk_def empty_database_def)
  then have "Product_pk (run vp rs empty_database)" by (rule run_Product_pk)
  then show ?thesis by (simp add: Product_pk_def)
qed

end
